theory Spec2Isabelle
  imports Main "HOL-Library.AList"
begin

section \<open>Python strings\<close>

text \<open>
  A Python \<^verbatim>\<open>str\<close> is a sequence of Unicode code points, and \<^verbatim>\<open>len\<close> and slicing count
  code points. It is modelled as a list of code point numbers. \<open>py\<close> embeds an ASCII
  literal; the Cyrillic and emoji literals of \<^verbatim>\<open>bot.py\<close> are written out as code points.
\<close>

type_synonym pystr = "nat list"

definition py :: "string \<Rightarrow> pystr" where
  "py s = map of_char s"

text \<open>
  \<^verbatim>\<open>str.isspace\<close> for one character: the code points CPython's
  \<^verbatim>\<open>_PyUnicode_IsWhitespace\<close> accepts. \<^verbatim>\<open>str.strip()\<close> drops them at both ends.
\<close>

definition isspace :: "nat \<Rightarrow> bool" where
  "isspace c \<longleftrightarrow>
     (9 \<le> c \<and> c \<le> 13) \<or> (28 \<le> c \<and> c \<le> 32) \<or> c = 133 \<or> c = 160 \<or> c = 5760 \<or>
     (8192 \<le> c \<and> c \<le> 8202) \<or> c = 8232 \<or> c = 8233 \<or> c = 8239 \<or> c = 8287 \<or> c = 12288"

definition strip :: "pystr \<Rightarrow> pystr" where
  "strip s = rev (dropWhile isspace (rev (dropWhile isspace s)))"

text \<open>\<^verbatim>\<open>s.split(sep)\<close> for a one-character separator: never the empty list.\<close>

fun str_split :: "nat \<Rightarrow> pystr \<Rightarrow> pystr list" where
  "str_split sep [] = [[]]"
| "str_split sep (c # cs) =
     (if c = sep then [] # str_split sep cs
      else (case str_split sep cs of
              [] \<Rightarrow> [[c]]
            | l # ls \<Rightarrow> (c # l) # ls))"

text \<open>\<^verbatim>\<open>s.split(sep, 1)\<close>: cut at the first separator, or the string alone when there is none.\<close>

definition str_split1 :: "nat \<Rightarrow> pystr \<Rightarrow> pystr list" where
  "str_split1 sep s =
     (case dropWhile (\<lambda>c. c \<noteq> sep) s of
        [] \<Rightarrow> [s]
      | _ # rest \<Rightarrow> [takeWhile (\<lambda>c. c \<noteq> sep) s, rest])"

text \<open>\<^verbatim>\<open>range(0, n, step)\<close> and the slice \<^verbatim>\<open>text[i:i+k]\<close>.\<close>

definition range_step :: "nat \<Rightarrow> nat \<Rightarrow> nat list" where
  "range_step n step = map (\<lambda>k. k * step) [0 ..< (n + step - 1) div step]"

definition slice :: "'a list \<Rightarrow> nat \<Rightarrow> nat \<Rightarrow> 'a list" where
  "slice xs i j = take (j - i) (drop i xs)"

section \<open>The literals of bot.py\<close>

definition FALLBACK :: pystr where
  "FALLBACK = [1057, 1077, 1081, 1095, 1072, 1089, 32, 1085, 1077, 32, 1084, 1086, 1075, 1091,
     32, 1086, 1090, 1074, 1077, 1090, 1080, 1090, 1100, 46]"


definition ERR_PREFIX :: pystr where
  "ERR_PREFIX = [9888, 65039, 32, 1053, 1077, 1074, 1077, 1088, 1085, 1099, 1081, 32, 1092, 1086,
     1088, 1084, 1072, 1090, 32, 1089, 1090, 1088, 1086, 1082, 1080, 58, 32, 39]"

definition ERR_SUFFIX :: pystr where
  "ERR_SUFFIX = [39, 46, 32, 1048, 1089, 1087, 1086, 1083, 1100, 1079, 1091, 1081, 32, 1092, 1086,
     1088, 1084, 1072, 1090, 32, 39, 72, 72, 58, 77, 77, 32, 1047, 1072, 1076, 1072, 1085, 1080,
     1077, 39]"

definition PLAN_TYPE :: pystr where
  "PLAN_TYPE = [1087, 1083, 1072, 1085, 1099]"

definition REFLECT_TYPE :: pystr where
  "REFLECT_TYPE = [1088, 1077, 1092, 1083, 1077, 1082, 1089, 1080, 1103]"

definition PLAN_PROMPT_PRE :: pystr where
  "PLAN_PROMPT_PRE = [1042, 1086, 1090, 32, 1087, 1083, 1072, 1085, 32, 1096, 1082, 1086, 1083,
     1100, 1085, 1080, 1082, 1072, 58, 32]"

definition PLAN_PROMPT_POST :: pystr where
  "PLAN_PROMPT_POST = [10, 1044, 1072, 1081, 32, 1089, 1086, 1074, 1077, 1090, 1099, 32, 1080, 32,
     1076, 1086, 1073, 1072, 1074, 1100, 32, 1085, 1077, 1076, 1086, 1089, 1090, 1072, 1102, 1097,
     1080, 1077, 32, 1087, 1091, 1085, 1082, 1090, 1099, 46]"

definition PLAN_REPLY_PRE :: pystr where
  "PLAN_REPLY_PRE = [9989, 32, 1055, 1083, 1072, 1085, 32, 1079, 1072, 1087, 1080, 1089, 1072,
     1085, 32, 1080, 32, 1076, 1086, 1087, 1086, 1083, 1085, 1077, 1085, 32, 1048, 1048, 58, 10, 10]"

definition PLAN_REPLY_POST :: pystr where
  "PLAN_REPLY_POST = [10, 10, 1058, 1077, 1087, 1077, 1088, 1100, 32, 1085, 1072, 1087, 1080, 1096,
     1080, 32, 1082, 1072, 1078, 1076, 1086, 1077, 32, 1079, 1072, 1076, 1072, 1085, 1080, 1077,
     32, 1089, 32, 1091, 1082, 1072, 1079, 1072, 1085, 1080, 1077, 1084, 32, 1074, 1088, 1077,
     1084, 1077, 1085, 1080, 46, 32, 1053, 1072, 1087, 1088, 1080, 1084, 1077, 1088, 58, 10, 10,
     56, 58, 48, 48, 32, 1052, 1072, 1090, 1077, 1084, 1072, 1090, 1080, 1082, 1072, 10, 57, 58,
     51, 48, 32, 1055, 1088, 1086, 1075, 1091, 1083, 1082, 1072, 10, 46, 46, 46]"

definition SCHEDULE_OK :: pystr where
  "SCHEDULE_OK = [9989, 32, 1047, 1072, 1076, 1072, 1085, 1080, 1103, 32, 1089, 32, 1074, 1088,
     1077, 1084, 1077, 1085, 1077, 1084, 32, 1079, 1072, 1087, 1080, 1089, 1072, 1085, 1099, 46,
     32, 1041, 1091, 1076, 1091, 32, 1085, 1072, 1087, 1086, 1084, 1080, 1085, 1072, 1090, 1100,
     32, 1079, 1072, 32, 49, 48, 32, 1084, 1080, 1085, 1091, 1090, 32, 1076, 1086, 32, 1085, 1072,
     1095, 1072, 1083, 1072, 33]"

definition REFLECT_PROMPT_PRE :: pystr where
  "REFLECT_PROMPT_PRE = [1042, 1086, 1090, 32, 1076, 1085, 1077, 1074, 1085, 1080, 1082, 1086,
     1074, 1072, 1103, 32, 1079, 1072, 1087, 1080, 1089, 1100, 32, 1096, 1082, 1086, 1083, 1100,
     1085, 1080, 1082, 1072, 58, 32, 39]"

definition REFLECT_PROMPT_POST :: pystr where
  "REFLECT_PROMPT_POST = [39, 46, 32, 1054, 1090, 1074, 1077, 1090, 1100, 32, 1087, 1086, 1076,
     1076, 1077, 1088, 1078, 1082, 1086, 1081, 32, 1080, 1083, 1080, 32, 1089, 1086, 1074, 1077,
     1090, 1086, 1084, 46]"

definition REFLECT_REPLY_PRE :: pystr where
  "REFLECT_REPLY_PRE = [128172, 32]"

definition FREE_PROMPT_PRE :: pystr where
  "FREE_PROMPT_PRE = [1055, 1086, 1083, 1100, 1079, 1086, 1074, 1072, 1090, 1077, 1083, 1100, 32,
     1087, 1080, 1096, 1077, 1090, 58, 32]"

definition MAX_LEN :: nat where
  "MAX_LEN = 4096"

section \<open>datetime.strptime(s, "%H:%M")\<close>

datatype error = ValueError | TelegramError | JSONShapeError

text \<open>
  CPython compiles the format \<^verbatim>\<open>%H:%M\<close> to the regular expression
  \<^verbatim>\<open>(?P<H>2[0-3]|[0-1]\d|\d):(?P<M>[0-5]\d|\d)\<close>, matches it at the start of the string and
  raises \<^verbatim>\<open>ValueError\<close> when there is no match or when the match does not reach the end
  of the string. \<^verbatim>\<open>\d\<close> is any Unicode decimal digit, which \<^verbatim>\<open>int\<close> also reads; the
  Unicode table is the parameter \<open>dec\<close> (the digit's value, \<open>None\<close> for any other code
  point). \<open>re_H\<close> and \<open>re_M\<close> list the ways a group can match, in the order the
  alternatives are tried, each with the group's value and the rest of the string.
\<close>

definition re_H :: "(nat \<Rightarrow> nat option) \<Rightarrow> pystr \<Rightarrow> (nat \<times> pystr) list" where
  "re_H dec s =
     (case s of
        c1 # c2 # r \<Rightarrow> if c1 = 50 \<and> 48 \<le> c2 \<and> c2 \<le> 51 then [(20 + (c2 - 48), r)] else []
      | _ \<Rightarrow> [])
     @ (case s of
          c1 # c2 # r \<Rightarrow>
            if c1 = 48 \<or> c1 = 49
            then (case dec c2 of Some d \<Rightarrow> [(10 * (c1 - 48) + d, r)] | None \<Rightarrow> [])
            else []
        | _ \<Rightarrow> [])
     @ (case s of
          c1 # r \<Rightarrow> (case dec c1 of Some d \<Rightarrow> [(d, r)] | None \<Rightarrow> [])
        | [] \<Rightarrow> [])"

definition re_M :: "(nat \<Rightarrow> nat option) \<Rightarrow> pystr \<Rightarrow> (nat \<times> pystr) list" where
  "re_M dec s =
     (case s of
        c1 # c2 # r \<Rightarrow>
          if 48 \<le> c1 \<and> c1 \<le> 53
          then (case dec c2 of Some d \<Rightarrow> [(10 * (c1 - 48) + d, r)] | None \<Rightarrow> [])
          else []
      | _ \<Rightarrow> [])
     @ (case s of
          c1 # r \<Rightarrow> (case dec c1 of Some d \<Rightarrow> [(d, r)] | None \<Rightarrow> [])
        | [] \<Rightarrow> [])"

text \<open>All matches of the whole expression, in the order a backtracking matcher finds them.\<close>

definition re_HM :: "(nat \<Rightarrow> nat option) \<Rightarrow> pystr \<Rightarrow> (nat \<times> nat \<times> pystr) list" where
  "re_HM dec s =
     concat (map (\<lambda>(h, r).
                (case r of
                   [] \<Rightarrow> []
                 | c # r' \<Rightarrow> if c = 58 then map (\<lambda>(m, r''). (h, m, r'')) (re_M dec r') else []))
             (re_H dec s))"

text \<open>
  The result is the hour and minute of the \<^verbatim>\<open>datetime\<close> (its date is 1900-01-01); the
  constructor refuses an hour or minute out of range.
\<close>

definition strptime :: "(nat \<Rightarrow> nat option) \<Rightarrow> pystr \<Rightarrow> error + (nat \<times> nat)" where
  "strptime dec s =
     (case re_HM dec s of
        [] \<Rightarrow> Inl ValueError
      | (h, m, r) # _ \<Rightarrow>
          if r \<noteq> [] then Inl ValueError
          else if h < 24 \<and> m < 60 then Inr (h, m)
          else Inl ValueError)"

text \<open>The decimal digits of ASCII, the part of the Unicode table the examples need.\<close>

definition ascii_decimal :: "nat \<Rightarrow> nat option" where
  "ascii_decimal c = (if 48 \<le> c \<and> c \<le> 57 then Some (c - 48) else None)"

section \<open>The data model and the JSON file\<close>

text \<open>
  A chat's record is the dict of line 110: \<^verbatim>\<open>{"diary": [], "mode": None, "tasks": []}\<close>.
  A diary entry is \<^verbatim>\<open>{"type": ..., "text": ...}\<close>. A task is the tuple
  \<^verbatim>\<open>(time_part, task_part)\<close> line 127 builds, or the two-element list that
  \<^verbatim>\<open>json.load\<close> returns for it; Python keeps the two apart
  (\<^verbatim>\<open>("a", "b") == ["a", "b"]\<close> is false), so the model does. The store is a dict
  from chat ids to records, here an association list in insertion order.
\<close>

record entry =
  entry_type :: pystr
  entry_text :: pystr

datatype task = PyTuple pystr pystr | PyList pystr pystr

record chat_record =
  diary :: "entry list"
  mode :: "pystr option"
  tasks :: "task list"

type_synonym data = "(pystr \<times> chat_record) list"

datatype json = JNull | JString pystr | JArray "json list" | JObject "(pystr \<times> json) list"

text \<open>\<^verbatim>\<open>json.dump\<close>: a tuple and a list are both written as an array.\<close>

definition json_of_entry :: "entry \<Rightarrow> json" where
  "json_of_entry e =
     JObject [(py ''type'', JString (entry_type e)), (py ''text'', JString (entry_text e))]"

fun json_of_task :: "task \<Rightarrow> json" where
  "json_of_task (PyTuple a b) = JArray [JString a, JString b]"
| "json_of_task (PyList a b) = JArray [JString a, JString b]"

fun json_of_mode :: "pystr option \<Rightarrow> json" where
  "json_of_mode None = JNull"
| "json_of_mode (Some s) = JString s"

definition json_of_record :: "chat_record \<Rightarrow> json" where
  "json_of_record r =
     JObject [(py ''diary'', JArray (map json_of_entry (diary r))),
              (py ''mode'', json_of_mode (mode r)),
              (py ''tasks'', JArray (map json_of_task (tasks r)))]"

definition json_dump :: "data \<Rightarrow> json" where
  "json_dump d = JObject (map (\<lambda>(k, r). (k, json_of_record r)) d)"

text \<open>
  \<^verbatim>\<open>json.load\<close>: an array comes back as a list, never as a tuple. The records are read
  back into the shape above; a file of any other shape (one \<^verbatim>\<open>save_data\<close> cannot have
  written) is outside the model and gives \<open>None\<close>.
\<close>

fun entry_of_json :: "json \<Rightarrow> entry option" where
  "entry_of_json (JObject [(k1, JString a), (k2, JString b)]) =
     (if k1 = py ''type'' \<and> k2 = py ''text''
      then Some \<lparr>entry_type = a, entry_text = b\<rparr> else None)"
| "entry_of_json _ = None"

fun task_of_json :: "json \<Rightarrow> task option" where
  "task_of_json (JArray [JString a, JString b]) = Some (PyList a b)"
| "task_of_json _ = None"

fun mode_of_json :: "json \<Rightarrow> pystr option option" where
  "mode_of_json JNull = Some None"
| "mode_of_json (JString s) = Some (Some s)"
| "mode_of_json _ = None"

fun list_of_json :: "(json \<Rightarrow> 'a option) \<Rightarrow> json \<Rightarrow> 'a list option" where
  "list_of_json f (JArray js) = those (map f js)"
| "list_of_json f _ = None"

fun record_of_json :: "json \<Rightarrow> chat_record option" where
  "record_of_json (JObject [(k1, d), (k2, m), (k3, t)]) =
     (if k1 = py ''diary'' \<and> k2 = py ''mode'' \<and> k3 = py ''tasks''
      then (case (list_of_json entry_of_json d, mode_of_json m, list_of_json task_of_json t) of
              (Some d', Some m', Some t') \<Rightarrow> Some \<lparr>diary = d', mode = m', tasks = t'\<rparr>
            | _ \<Rightarrow> None)
      else None)"
| "record_of_json _ = None"

fun json_load :: "json \<Rightarrow> data option" where
  "json_load (JObject kvs) =
     (if distinct (map fst kvs)
      then those (map (\<lambda>(k, j). map_option (Pair k) (record_of_json j)) kvs)
      else None)"
| "json_load _ = None"

section \<open>The environment and the effects\<close>

text \<open>
  What the program calls and does not define is the environment:
  \<^item> \<open>generate_content env prompt\<close> is the text of \<^verbatim>\<open>model.generate_content(prompt)\<close>,
    \<open>None\<close> when the call or the access to \<^verbatim>\<open>response.text\<close> raises;
  \<^item> \<open>send_ok env chat_id text\<close> says whether \<^verbatim>\<open>bot.send_message\<close> returns (otherwise it
    raises);
  \<^item> \<open>decimal env\<close> is the Unicode table of decimal digits;
  \<^item> \<open>clock env n\<close> is what \<^verbatim>\<open>datetime.now()\<close> returns when \<open>n\<close> reminders have been
    scheduled so far, in microseconds; naive datetimes, so a day is \<open>DAY\<close> microseconds.

  What the program does to the world is the state: the JSON file (\<open>None\<close> when it does
  not exist), the messages the transport accepted, in order, and the reminder coroutines
  handed to the event loop. Logging is left out.
\<close>

record env =
  generate_content :: "pystr \<Rightarrow> pystr option"
  send_ok :: "pystr \<Rightarrow> pystr \<Rightarrow> bool"
  decimal :: "nat \<Rightarrow> nat option"
  clock :: "nat \<Rightarrow> int"

record timer =
  timer_chat :: pystr
  timer_task :: pystr
  timer_delay :: int

record world =
  data_file :: "json option"
  sent :: "(pystr \<times> pystr) list"
  timers :: "timer list"

definition load_data :: "json option \<Rightarrow> data option" where
  "load_data f = (case f of None \<Rightarrow> Some [] | Some j \<Rightarrow> json_load j)"

definition save_data :: "data \<Rightarrow> world \<Rightarrow> world" where
  "save_data d w = w\<lparr>data_file := Some (json_dump d)\<rparr>"

definition generate_message :: "env \<Rightarrow> pystr \<Rightarrow> pystr" where
  "generate_message env prompt =
     (case generate_content env prompt of
        Some response_text \<Rightarrow> strip response_text
      | None \<Rightarrow> FALLBACK)"

definition bot_send_message :: "env \<Rightarrow> pystr \<Rightarrow> pystr \<Rightarrow> world \<Rightarrow> (error + unit) \<times> world" where
  "bot_send_message env chat_id text w =
     (if send_ok env chat_id text
      then (Inr (), w\<lparr>sent := sent w @ [(chat_id, text)]\<rparr>)
      else (Inl TelegramError, w))"


definition DAY :: int where
  "DAY = 86400000000"

text \<open>
  Lines 61 to 65: \<open>task_minutes\<close> is the hour and minute of
  \<^verbatim>\<open>strptime(time_str) - timedelta(minutes=10)\<close>, which wraps below 00:10 to the
  evening before.
\<close>

definition scheduled_time :: "int \<Rightarrow> nat \<Rightarrow> nat \<Rightarrow> int" where
  "scheduled_time now h m =
     (let task_minutes = (int (h * 60 + m) - 10) mod 1440;
          hour = task_minutes div 60;
          minute = task_minutes mod 60;
          replaced = (now div DAY) * DAY + hour * 3600000000 + minute * 60000000
      in if replaced < now then replaced + DAY else replaced)"

definition schedule_task :: "env \<Rightarrow> pystr \<Rightarrow> pystr \<Rightarrow> pystr \<Rightarrow> world \<Rightarrow> world" where
  "schedule_task env chat_id time_str task w =
     (case strptime (decimal env) time_str of
        Inl e \<Rightarrow> w
      | Inr (h, m) \<Rightarrow>
          (let now = clock env (length (timers w));
               delay = scheduled_time now h m - now
           in w\<lparr>timers := timers w @
                  [\<lparr>timer_chat = chat_id, timer_task = task, timer_delay = delay\<rparr>]\<rparr>))"

text \<open>\<^verbatim>\<open>send_long_message\<close>: the loop over \<^verbatim>\<open>range(0, len(text), MAX_LEN)\<close>.\<close>

fun send_chunks :: "env \<Rightarrow> pystr \<Rightarrow> pystr \<Rightarrow> nat list \<Rightarrow> world \<Rightarrow> (error + unit) \<times> world" where
  "send_chunks env chat_id text [] w = (Inr (), w)"
| "send_chunks env chat_id text (i # is) w =
     (case bot_send_message env chat_id (slice text i (i + MAX_LEN)) w of
        (Inl e, w') \<Rightarrow> (Inl e, w')
      | (Inr _, w') \<Rightarrow> send_chunks env chat_id text is w')"

definition send_long_message :: "env \<Rightarrow> pystr \<Rightarrow> pystr \<Rightarrow> world \<Rightarrow> (error + unit) \<times> world" where
  "send_long_message env chat_id text w =
     send_chunks env chat_id text (range_step (length text) MAX_LEN) w"

section \<open>handle_message\<close>

definition new_record :: chat_record where
  "new_record = \<lparr>diary = [], mode = None, tasks = []\<rparr>"

text \<open>
  Lines 125 and 126, the body of the \<^verbatim>\<open>try\<close>: the unpacking raises \<^verbatim>\<open>ValueError\<close>
  unless the split has two parts, and \<^verbatim>\<open>strptime\<close> raises it on a bad time token. The
  parsed time is dropped: the token itself is kept.
\<close>

definition parse_line :: "env \<Rightarrow> pystr \<Rightarrow> error + (pystr \<times> pystr)" where
  "parse_line env line =
     (case str_split1 32 line of
        [time_part, task_part] \<Rightarrow>
          (case strptime (decimal env) time_part of
             Inl e \<Rightarrow> Inl e
           | Inr _ \<Rightarrow> Inr (time_part, task_part))
      | _ \<Rightarrow> Inl ValueError)"

text \<open>
  The loop of lines 123 to 131. \<open>Inl line\<close> is the \<^verbatim>\<open>ValueError\<close> caught at \<open>line\<close>.
\<close>

fun parse_lines :: "env \<Rightarrow> pystr \<Rightarrow> pystr list \<Rightarrow> task list \<Rightarrow> world \<Rightarrow> (pystr + task list) \<times> world" where
  "parse_lines env chat_id [] tasks' w = (Inr tasks', w)"
| "parse_lines env chat_id (line # lines) tasks' w =
     (case parse_line env line of
        Inl e \<Rightarrow> (Inl line, w)
      | Inr (time_part, task_part) \<Rightarrow>
          parse_lines env chat_id lines (tasks' @ [PyTuple time_part task_part])
            (schedule_task env chat_id time_part task_part w))"

text \<open>
  The handler, on the text of one update. The result is \<open>Inl\<close> when an exception leaves
  the handler, which nothing in \<^verbatim>\<open>bot.py\<close> catches: then \<^verbatim>\<open>save_data\<close> on line 147 is
  not reached, as it is not after the \<^verbatim>\<open>return\<close> on line 131.
\<close>

definition handle_message :: "env \<Rightarrow> pystr \<Rightarrow> pystr \<Rightarrow> world \<Rightarrow> (error + unit) \<times> world" where
  "handle_message env chat_id text w =
     (case load_data (data_file w) of
        None \<Rightarrow> (Inl JSONShapeError, w)
      | Some data0 \<Rightarrow>
          (let data = (if map_of data0 chat_id = None
                       then AList.update chat_id new_record data0 else data0);
               r = (case map_of data chat_id of None \<Rightarrow> new_record | Some r \<Rightarrow> r);
               m = mode r
           in if m = Some (py ''plan'') then
                (let r1 = r\<lparr>diary := diary r @ [\<lparr>entry_type = PLAN_TYPE, entry_text = text\<rparr>]\<rparr>;
                     ai_reply = generate_message env (PLAN_PROMPT_PRE @ text @ PLAN_PROMPT_POST)
                 in case send_long_message env chat_id
                           (PLAN_REPLY_PRE @ ai_reply @ PLAN_REPLY_POST) w of
                      (Inl e, w') \<Rightarrow> (Inl e, w')
                    | (Inr _, w') \<Rightarrow>
                        (Inr (), save_data
                           (AList.update chat_id (r1\<lparr>mode := Some (py ''schedule'')\<rparr>) data) w'))
              else if m = Some (py ''schedule'') then
                (case parse_lines env chat_id (str_split 10 (strip text)) [] w of
                   (Inl line, w') \<Rightarrow>
                     (case bot_send_message env chat_id (ERR_PREFIX @ line @ ERR_SUFFIX) w' of
                        (Inl e, w'') \<Rightarrow> (Inl e, w'')
                      | (Inr _, w'') \<Rightarrow> (Inr (), w''))
                 | (Inr tasks', w') \<Rightarrow>
                     (case bot_send_message env chat_id SCHEDULE_OK w' of
                        (Inl e, w'') \<Rightarrow> (Inl e, w'')
                      | (Inr _, w'') \<Rightarrow>
                          (Inr (), save_data
                             (AList.update chat_id (r\<lparr>tasks := tasks', mode := None\<rparr>) data) w'')))
              else if m = Some (py ''reflect'') then
                (let r1 = r\<lparr>diary := diary r @ [\<lparr>entry_type = REFLECT_TYPE, entry_text = text\<rparr>]\<rparr>;
                     reply = generate_message env
                               (REFLECT_PROMPT_PRE @ text @ REFLECT_PROMPT_POST)
                 in case send_long_message env chat_id (REFLECT_REPLY_PRE @ reply) w of
                      (Inl e, w') \<Rightarrow> (Inl e, w')
                    | (Inr _, w') \<Rightarrow>
                        (Inr (), save_data (AList.update chat_id (r1\<lparr>mode := None\<rparr>) data) w'))
              else
                (let response = generate_message env (FREE_PROMPT_PRE @ text)
                 in case send_long_message env chat_id response w of
                      (Inl e, w') \<Rightarrow> (Inl e, w')
                    | (Inr _, w') \<Rightarrow> (Inr (), save_data data w'))))"

text \<open>The record a chat has in the store, as \<^verbatim>\<open>load_data()[chat_id]\<close> would read it.\<close>

definition stored :: "world \<Rightarrow> pystr \<Rightarrow> chat_record option" where
  "stored w chat_id = (case load_data (data_file w) of None \<Rightarrow> None | Some d \<Rightarrow> map_of d chat_id)"

text \<open>A transport that accepts every message, and the examples' environment.\<close>

definition delivers :: "env \<Rightarrow> bool" where
  "delivers env \<longleftrightarrow> (\<forall>c t. send_ok env c t)"

definition example_env :: env where
  "example_env = \<lparr>generate_content = (\<lambda>p. None), send_ok = (\<lambda>c t. True),
                  decimal = ascii_decimal, clock = (\<lambda>n. 0)\<rparr>"

definition world0 :: "data \<Rightarrow> world" where
  "world0 d = \<lparr>data_file = Some (json_dump d), sent = [], timers = []\<rparr>"

text \<open>The chat of the examples, with a given mode and no entries.\<close>

definition store42 :: "pystr option \<Rightarrow> data" where
  "store42 m = [(py ''42'', \<lparr>diary = [], mode = m, tasks = []\<rparr>)]"

text \<open>
  The store \<^verbatim>\<open>handle_message\<close> passes to \<^verbatim>\<open>save_data\<close> on line 147 after the schedule
  \<^verbatim>\<open>"8:00 Math"\<close> of chat 42: the task is the tuple of line 127.
\<close>

definition saved42 :: data where
  "saved42 = [(py ''42'', \<lparr>diary = [], mode = None, tasks = [PyTuple (py ''8:00'') (py ''Math'')]\<rparr>)]"

section \<open>What a saved store looks like when loaded\<close>

text \<open>
  Written after the JSON rules, to be compared with \<open>load_data\<close> after \<open>save_data\<close>:
  the store with every task tuple replaced by the list of its two components.
\<close>

fun as_loaded_task :: "task \<Rightarrow> task" where
  "as_loaded_task (PyTuple a b) = PyList a b"
| "as_loaded_task (PyList a b) = PyList a b"

definition as_loaded_record :: "chat_record \<Rightarrow> chat_record" where
  "as_loaded_record r = r\<lparr>tasks := map as_loaded_task (tasks r)\<rparr>"

definition as_loaded :: "data \<Rightarrow> data" where
  "as_loaded d = map (\<lambda>(k, r). (k, as_loaded_record r)) d"

section \<open>The /start command and a run of the bot\<close>


text \<open>
  The updates the transport delivers, handled one after the other; an exception that
  leaves a handler ends that handler only.
\<close>

datatype update = Start pystr | Message pystr pystr






section \<open>Properties\<close>

subsection \<open>Strings and chunks\<close>



lemma concat_slices:
  "concat (map (\<lambda>i. slice xs i (i + n)) (map (\<lambda>k. k * n) [0 ..< m])) = take (m * n) xs"
proof (induction m)
  case 0
  then show ?case by simp
next
  case (Suc m)
  have "concat (map (\<lambda>i. slice xs i (i + n)) (map (\<lambda>k. k * n) [0 ..< Suc m]))
        = concat (map (\<lambda>i. slice xs i (i + n)) (map (\<lambda>k. k * n) [0 ..< m]))
          @ take n (drop (m * n) xs)"
    by (simp add: slice_def)
  also have "\<dots> = take (m * n) xs @ take n (drop (m * n) xs)"
    using Suc by simp
  also have "\<dots> = take (m * n + n) xs"
    by (simp add: take_add)
  finally show ?case by (simp add: add.commute)
qed

lemma range_step_covers:
  fixes n step :: nat
  assumes s: "0 < step"
  shows "n \<le> ((n + step - 1) div step) * step"
proof -
  define q where "q = (n + step - 1) div step"
  define r where "r = (n + step - 1) mod step"
  have "r < step" using s by (simp add: r_def)
  moreover have "q * step + r = n + step - 1" by (simp add: q_def r_def)
  ultimately have "n \<le> q * step" using s by linarith
  then show ?thesis by (simp add: q_def)
qed

lemma concat_chunks:
  "0 < step \<Longrightarrow> concat (map (\<lambda>i. slice xs i (i + step)) (range_step (length xs) step)) = xs"
proof -
  assume s: "0 < step"
  have "concat (map (\<lambda>i. slice xs i (i + step)) (range_step (length xs) step))
        = take (((length xs + step - 1) div step) * step) xs"
    unfolding range_step_def by (rule concat_slices)
  also have "\<dots> = xs"
    using range_step_covers [OF s, of "length xs"] by simp
  finally show ?thesis .
qed

lemma length_slice: "length (slice xs i (i + n)) \<le> n"
  by (simp add: slice_def)

lemma range_step_many:
  fixes n step :: nat
  assumes "0 < step" "step < n"
  shows "2 \<le> length (range_step n step)"
proof -
  have "2 * step \<le> n + step - 1" using assms by linarith
  then have "(2 * step) div step \<le> (n + step - 1) div step" by (rule div_le_mono)
  then show ?thesis using assms by (simp add: range_step_def)
qed

lemma send_chunks_delivers:
  "delivers env \<Longrightarrow>
   send_chunks env c text is w =
     (Inr (), w\<lparr>sent := sent w @ map (\<lambda>i. (c, slice text i (i + MAX_LEN))) is\<rparr>)"
  by (induction "is" arbitrary: w) (simp_all add: bot_send_message_def delivers_def)

subsection \<open>The reminder's fire time\<close>



subsection \<open>The JSON file\<close>

lemma those_map_Some:
  "(\<And>x. x \<in> set xs \<Longrightarrow> f x = Some (g x)) \<Longrightarrow> those (map f xs) = Some (map g xs)"
  by (induction xs) simp_all

lemma those_Some_all:
  "those (map f xs) = Some ys \<Longrightarrow> list_all2 (\<lambda>x y. f x = Some y) xs ys"
  by (induction xs arbitrary: ys) (auto split: option.splits)

lemma entry_roundtrip: "entry_of_json (json_of_entry e) = Some e"
  by (simp add: json_of_entry_def)

lemma task_roundtrip: "task_of_json (json_of_task t) = Some (as_loaded_task t)"
  by (cases t) simp_all

lemma mode_roundtrip: "mode_of_json (json_of_mode m) = Some m"
  by (cases m) simp_all

lemma record_roundtrip: "record_of_json (json_of_record r) = Some (as_loaded_record r)"
  by (simp add: json_of_record_def as_loaded_record_def those_map_Some comp_def
        entry_roundtrip task_roundtrip mode_roundtrip)

lemma fst_json_dump: "map fst (map (\<lambda>(k, r). (k, json_of_record r)) d) = map fst d"
  by (induction d) auto

lemma load_json_dump:
  "distinct (map fst d) \<Longrightarrow> json_load (json_dump d) = Some (as_loaded d)"
proof -
  assume dist: "distinct (map fst d)"
  have "those (map (\<lambda>(k, j). map_option (Pair k) (record_of_json j))
                (map (\<lambda>(k, r). (k, json_of_record r)) d))
        = Some (map (\<lambda>(k, r). (k, as_loaded_record r)) d)"
    by (induction d) (auto simp: record_roundtrip)
  with dist show ?thesis
    unfolding json_dump_def as_loaded_def json_load.simps fst_json_dump by simp
qed

lemma load_save: "distinct (map fst d) \<Longrightarrow> load_data (data_file (save_data d w)) = Some (as_loaded d)"
  by (simp add: load_data_def save_data_def load_json_dump)

lemma task_of_json_list: "task_of_json j = Some t \<Longrightarrow> as_loaded_task t = t"
  by (induction j rule: task_of_json.induct) auto

lemma those_tasks_list:
  "those (map task_of_json js) = Some ts \<Longrightarrow> map as_loaded_task ts = ts"
  by (induction js arbitrary: ts) (auto split: option.splits dest: task_of_json_list)

lemma record_of_json_list: "record_of_json j = Some r \<Longrightarrow> as_loaded_record r = r"
proof (induction j rule: record_of_json.induct)
  case (1 k1 d k2 m k3 t)
  then show ?case
    by (cases t) (auto simp: as_loaded_record_def split: if_splits option.splits dest: those_tasks_list)
qed simp_all

lemma those_records_list:
  "those (map (\<lambda>(k, j). map_option (Pair k) (record_of_json j)) kvs) = Some d \<Longrightarrow>
   as_loaded d = d \<and> map fst d = map fst kvs"
  by (induction kvs arbitrary: d)
     (auto simp: as_loaded_def split: option.splits dest: record_of_json_list)

lemma json_load_loaded: "json_load j = Some d \<Longrightarrow> as_loaded d = d \<and> distinct (map fst d)"
  by (induction j rule: json_load.induct) (auto split: if_splits dest: those_records_list)

lemma load_data_loaded: "load_data f = Some d \<Longrightarrow> as_loaded d = d \<and> distinct (map fst d)"
  by (cases f) (auto simp: load_data_def as_loaded_def dest: json_load_loaded)

lemma map_of_as_loaded: "map_of (as_loaded d) k = map_option as_loaded_record (map_of d k)"
  by (induction d) (auto simp: as_loaded_def)

lemma as_loaded_idem: "as_loaded (as_loaded d) = as_loaded d"
proof -
  have "as_loaded_task (as_loaded_task t) = as_loaded_task t" for t by (cases t) simp_all
  then show ?thesis by (induction d) (auto simp: as_loaded_def as_loaded_record_def)
qed

subsection \<open>The handler, branch by branch\<close>

lemma storedD:
  "stored w c = Some r \<Longrightarrow> \<exists>d. load_data (data_file w) = Some d \<and> map_of d c = Some r"
  by (auto simp: stored_def split: option.splits)

lemma loaded_record:
  "load_data f = Some d \<Longrightarrow> map_of d c = Some r \<Longrightarrow> as_loaded_record r = r"
  using load_data_loaded [of f d] map_of_as_loaded [of d c] by simp

lemma stored_save:
  "distinct (map fst d) \<Longrightarrow>
   stored (save_data d w) c = map_option as_loaded_record (map_of d c)"
  by (simp add: stored_def load_save map_of_as_loaded)

lemma stored_save_update:
  "distinct (map fst d) \<Longrightarrow>
   stored (save_data (AList.update k v d) w) c =
     (if c = k then Some (as_loaded_record v) else map_option as_loaded_record (map_of d c))"
  by (simp add: stored_save distinct_update update_conv')

lemma stored_frame: "data_file w' = data_file w \<Longrightarrow> stored w' c = stored w c"
  by (simp add: stored_def)

lemma save_data_frame:
  "data_file w' = data_file w \<Longrightarrow> data_file (save_data d w') = data_file (save_data d w)"
  by (simp add: save_data_def)

lemma bot_send_message_frame:
  "data_file (snd (bot_send_message env c t w)) = data_file w \<and>
   timers (snd (bot_send_message env c t w)) = timers w"
  by (simp add: bot_send_message_def)

lemma send_chunks_frame:
  "data_file (snd (send_chunks env c t idx w)) = data_file w \<and>
   timers (snd (send_chunks env c t idx w)) = timers w"
proof (induction idx arbitrary: w)
  case Nil
  then show ?case by simp
next
  case (Cons i idx)
  show ?case
  proof (cases "send_ok env c (slice t i (i + MAX_LEN))")
    case True
    then show ?thesis using Cons [of "w\<lparr>sent := sent w @ [(c, slice t i (i + MAX_LEN))]\<rparr>"]
      by (simp add: bot_send_message_def)
  next
    case False
    then show ?thesis by (simp add: bot_send_message_def)
  qed
qed

lemma send_long_message_frame:
  "data_file (snd (send_long_message env c t w)) = data_file w \<and>
   timers (snd (send_long_message env c t w)) = timers w"
  by (simp add: send_long_message_def send_chunks_frame)

lemma send_long_message_delivers:
  "delivers env \<Longrightarrow> fst (send_long_message env c t w) = Inr ()"
  by (simp add: send_long_message_def send_chunks_delivers)

lemma modes_differ:
  "py ''plan'' \<noteq> py ''schedule''" "py ''plan'' \<noteq> py ''reflect''" "py ''schedule'' \<noteq> py ''reflect''"
  by (simp_all add: py_def)

lemma new_record_mode: "mode new_record = None"
  by (simp add: new_record_def)

lemma handle_plan:
  assumes "load_data (data_file w) = Some d" "map_of d c = Some r" "mode r = Some (py ''plan'')"
  shows "handle_message env c t w =
     (case send_long_message env c
             (PLAN_REPLY_PRE @ generate_message env (PLAN_PROMPT_PRE @ t @ PLAN_PROMPT_POST)
                @ PLAN_REPLY_POST) w of
        (Inl e, w') \<Rightarrow> (Inl e, w')
      | (Inr _, w') \<Rightarrow>
          (Inr (), save_data
             (AList.update c (r\<lparr>diary := diary r @ [\<lparr>entry_type = PLAN_TYPE, entry_text = t\<rparr>],
                                mode := Some (py ''schedule'')\<rparr>) d) w'))"
  using assms by (simp add: handle_message_def Let_def split: prod.splits sum.splits)

lemma handle_reflect:
  assumes "load_data (data_file w) = Some d" "map_of d c = Some r" "mode r = Some (py ''reflect'')"
  shows "handle_message env c t w =
     (case send_long_message env c
             (REFLECT_REPLY_PRE @ generate_message env (REFLECT_PROMPT_PRE @ t @ REFLECT_PROMPT_POST)) w of
        (Inl e, w') \<Rightarrow> (Inl e, w')
      | (Inr _, w') \<Rightarrow>
          (Inr (), save_data
             (AList.update c (r\<lparr>diary := diary r @ [\<lparr>entry_type = REFLECT_TYPE, entry_text = t\<rparr>],
                                mode := None\<rparr>) d) w'))"
  using assms modes_differ by (simp add: handle_message_def Let_def split: prod.splits sum.splits)

lemma handle_schedule:
  assumes "load_data (data_file w) = Some d" "map_of d c = Some r" "mode r = Some (py ''schedule'')"
  shows "handle_message env c t w =
     (case parse_lines env c (str_split 10 (strip t)) [] w of
        (Inl line, w') \<Rightarrow>
          (case bot_send_message env c (ERR_PREFIX @ line @ ERR_SUFFIX) w' of
             (Inl e, w'') \<Rightarrow> (Inl e, w'')
           | (Inr _, w'') \<Rightarrow> (Inr (), w''))
      | (Inr tasks', w') \<Rightarrow>
          (case bot_send_message env c SCHEDULE_OK w' of
             (Inl e, w'') \<Rightarrow> (Inl e, w'')
           | (Inr _, w'') \<Rightarrow>
               (Inr (), save_data (AList.update c (r\<lparr>tasks := tasks', mode := None\<rparr>) d) w'')))"
  using assms modes_differ by (simp add: handle_message_def Let_def split: prod.splits sum.splits)

lemma handle_free:
  assumes "load_data (data_file w) = Some d" "map_of d c = Some r"
    "mode r \<noteq> Some (py ''plan'')" "mode r \<noteq> Some (py ''schedule'')" "mode r \<noteq> Some (py ''reflect'')"
  shows "handle_message env c t w =
     (case send_long_message env c (generate_message env (FREE_PROMPT_PRE @ t)) w of
        (Inl e, w') \<Rightarrow> (Inl e, w')
      | (Inr _, w') \<Rightarrow> (Inr (), save_data d w'))"
  using assms by (simp add: handle_message_def Let_def split: prod.splits sum.splits)

lemma handle_new:
  assumes "load_data (data_file w) = Some d" "map_of d c = None"
  shows "handle_message env c t w =
     (case send_long_message env c (generate_message env (FREE_PROMPT_PRE @ t)) w of
        (Inl e, w') \<Rightarrow> (Inl e, w')
      | (Inr _, w') \<Rightarrow> (Inr (), save_data (AList.update c new_record d) w'))"
  using assms new_record_mode by (simp add: handle_message_def Let_def update_conv' split: prod.splits sum.splits)

lemma loaded_map_of:
  "load_data f = Some d \<Longrightarrow> map_option as_loaded_record (map_of d c) = map_of d c"
  using load_data_loaded [of f d] map_of_as_loaded [of d c] by simp

lemma loaded_tasks:
  assumes "load_data f = Some d" and "map_of d c = Some r"
  shows "map as_loaded_task (tasks r) = tasks r"
proof -
  have "tasks (as_loaded_record r) = tasks r" using loaded_record [OF assms] by simp
  then show ?thesis by (simp add: as_loaded_record_def)
qed

lemma stored_after:
  assumes "load_data (data_file w) = Some d" "data_file w1 = data_file w"
  shows "stored (save_data (AList.update chat r' d) w1) c =
           (if c = chat then Some (as_loaded_record r') else stored w c)"
proof -
  have "distinct (map fst d)" using assms(1) load_data_loaded by blast
  moreover have "stored w c = map_of d c" using assms(1) by (simp add: stored_def)
  ultimately show ?thesis
    using loaded_map_of [OF assms(1), of c] by (simp add: stored_save_update)
qed

lemma stored_after_same:
  assumes "load_data (data_file w) = Some d" "data_file w1 = data_file w"
  shows "stored (save_data d w1) c = stored w c"
proof -
  have "distinct (map fst d)" using assms(1) load_data_loaded by blast
  moreover have "stored w c = map_of d c" using assms(1) by (simp add: stored_def)
  ultimately show ?thesis
    using loaded_map_of [OF assms(1), of c] by (simp add: stored_save)
qed

lemma case_send:
  "(case sr of (Inl e, w') \<Rightarrow> (Inl e, w') | (Inr u, w') \<Rightarrow> (Inr (), f w')) =
   (case fst sr of Inl e \<Rightarrow> (Inl e, snd sr) | Inr u \<Rightarrow> (Inr (), f (snd sr)))"
  by (cases sr) (simp split: sum.splits)

lemma handle_plan_delivers:
  assumes "stored w chat = Some r" and "mode r = Some (py ''plan'')" and "delivers env"
  shows "\<exists>w'. handle_message env chat t w = (Inr (), w') \<and>
              stored w' chat =
                Some (r\<lparr>diary := diary r @ [\<lparr>entry_type = PLAN_TYPE, entry_text = t\<rparr>],
                        mode := Some (py ''schedule'')\<rparr>)"
proof -
  obtain d where d: "load_data (data_file w) = Some d" "map_of d chat = Some r"
    using storedD [OF assms(1)] by blast
  let ?sr = "send_long_message env chat
               (PLAN_REPLY_PRE @ generate_message env (PLAN_PROMPT_PRE @ t @ PLAN_PROMPT_POST)
                  @ PLAN_REPLY_POST) w"
  let ?r' = "r\<lparr>diary := diary r @ [\<lparr>entry_type = PLAN_TYPE, entry_text = t\<rparr>],
               mode := Some (py ''schedule'')\<rparr>"
  have ok: "fst ?sr = Inr ()" using assms(3) by (rule send_long_message_delivers)
  have fr: "data_file (snd ?sr) = data_file w" by (simp add: send_long_message_frame)
  have h: "handle_message env chat t w = (Inr (), save_data (AList.update chat ?r' d) (snd ?sr))"
    unfolding handle_plan [OF d assms(2)] case_send using ok by simp
  have "as_loaded_record ?r' = ?r'"
    using loaded_tasks [OF d] by (simp add: as_loaded_record_def)
  then have "stored (save_data (AList.update chat ?r' d) (snd ?sr)) chat = Some ?r'"
    using stored_after [OF d(1) fr, of chat ?r' chat] by simp
  then show ?thesis using h by blast
qed

lemma handle_reflect_delivers:
  assumes "stored w chat = Some r" and "mode r = Some (py ''reflect'')" and "delivers env"
  shows "\<exists>w'. handle_message env chat t w = (Inr (), w') \<and>
              stored w' chat =
                Some (r\<lparr>diary := diary r @ [\<lparr>entry_type = REFLECT_TYPE, entry_text = t\<rparr>],
                        mode := None\<rparr>)"
proof -
  obtain d where d: "load_data (data_file w) = Some d" "map_of d chat = Some r"
    using storedD [OF assms(1)] by blast
  let ?sr = "send_long_message env chat
             (REFLECT_REPLY_PRE @ generate_message env (REFLECT_PROMPT_PRE @ t @ REFLECT_PROMPT_POST)) w"
  let ?r' = "r\<lparr>diary := diary r @ [\<lparr>entry_type = REFLECT_TYPE, entry_text = t\<rparr>],
               mode := None\<rparr>"
  have ok: "fst ?sr = Inr ()" using assms(3) by (rule send_long_message_delivers)
  have fr: "data_file (snd ?sr) = data_file w" by (simp add: send_long_message_frame)
  have h: "handle_message env chat t w = (Inr (), save_data (AList.update chat ?r' d) (snd ?sr))"
    unfolding handle_reflect [OF d assms(2)] case_send using ok by simp
  have "as_loaded_record ?r' = ?r'"
    using loaded_tasks [OF d] by (simp add: as_loaded_record_def)
  then have "stored (save_data (AList.update chat ?r' d) (snd ?sr)) chat = Some ?r'"
    using stored_after [OF d(1) fr, of chat ?r' chat] by simp
  then show ?thesis using h by blast
qed


text \<open>
  C10. When the chat's stored mode is none of \<^verbatim>\<open>plan\<close>, \<^verbatim>\<open>schedule\<close> and
  \<^verbatim>\<open>reflect\<close>, handling a message leaves the chat's stored record as it was (mode,
  diary and tasks), and every other chat's, and schedules no reminder, whether or not the
  reply is delivered.
\<close>

theorem free_chat_frame:
  assumes "stored w chat_id = Some r"
    and "mode r \<noteq> Some (py ''plan'')" and "mode r \<noteq> Some (py ''schedule'')"
    and "mode r \<noteq> Some (py ''reflect'')"
  shows "stored (snd (handle_message env chat_id text w)) chat_id = Some r \<and>
         (\<forall>c. stored (snd (handle_message env chat_id text w)) c = stored w c) \<and>
         timers (snd (handle_message env chat_id text w)) = timers w \<and>
         (delivers env \<longrightarrow> fst (handle_message env chat_id text w) = Inr ())"
proof -
  obtain d where d: "load_data (data_file w) = Some d" "map_of d chat_id = Some r"
    using storedD [OF assms(1)] by blast
  let ?sr = "send_long_message env chat_id (generate_message env (FREE_PROMPT_PRE @ text)) w"
  have fr: "data_file (snd ?sr) = data_file w" "timers (snd ?sr) = timers w"
    by (simp_all add: send_long_message_frame)
  have h: "handle_message env chat_id text w =
             (case fst ?sr of Inl e \<Rightarrow> (Inl e, snd ?sr) | Inr u \<Rightarrow> (Inr (), save_data d (snd ?sr)))"
    unfolding handle_free [OF d assms(2-4)] case_send ..
  have st: "stored (snd (handle_message env chat_id text w)) c = stored w c" for c
    unfolding h using stored_after_same [OF d(1) fr(1), of c] stored_frame [OF fr(1), of c]
    by (simp split: sum.splits)
  have tm: "timers (snd (handle_message env chat_id text w)) = timers w"
    unfolding h using fr(2) by (simp add: save_data_def split: sum.splits)
  have ok: "delivers env \<longrightarrow> fst (handle_message env chat_id text w) = Inr ()"
    unfolding h using send_long_message_delivers [of env chat_id _ w] by (auto split: sum.splits)
  show ?thesis using st tm ok assms(1) by simp
qed

lemma schedule_task_frame:
  "data_file (schedule_task env c tp dp w) = data_file w \<and>
   sent (schedule_task env c tp dp w) = sent w"
  by (simp add: schedule_task_def Let_def split: sum.splits prod.splits)

lemma schedule_task_timers:
  "strptime (decimal env) tp = Inr hm \<Longrightarrow>
   length (timers (schedule_task env c tp dp w)) = Suc (length (timers w))"
  by (cases hm) (simp add: schedule_task_def Let_def)

lemma str_split1_two:
  assumes "str_split1 sep s = [a, b]"
  shows "s = a @ sep # b \<and> sep \<notin> set a"
proof (cases "dropWhile (\<lambda>c. c \<noteq> sep) s")
  case Nil
  from assms have "[s] = [a, b]" unfolding str_split1_def Nil by simp
  then show ?thesis by simp
next
  case (Cons x rest)
  from assms have "[takeWhile (\<lambda>c. c \<noteq> sep) s, rest] = [a, b]"
    unfolding str_split1_def Cons by simp
  then have ab: "a = takeWhile (\<lambda>c. c \<noteq> sep) s" "b = rest" by simp_all
  have "dropWhile (\<lambda>c. c \<noteq> sep) s \<noteq> []" unfolding Cons by simp
  then have "\<not> (hd (dropWhile (\<lambda>c. c \<noteq> sep) s) \<noteq> sep)" by (rule hd_dropWhile)
  then have x: "x = sep" unfolding Cons by simp
  have "s = takeWhile (\<lambda>c. c \<noteq> sep) s @ dropWhile (\<lambda>c. c \<noteq> sep) s" by simp
  then have "s = a @ sep # b" using Cons ab x by simp
  moreover have "sep \<notin> set a" unfolding ab by (auto dest: set_takeWhileD)
  ultimately show ?thesis by simp
qed

lemma parse_line_Inr:
  assumes "parse_line env line = Inr (tp, dp)"
  shows "line = tp @ 32 # dp \<and> 32 \<notin> set tp \<and> (\<exists>hm. strptime (decimal env) tp = Inr hm)"
proof -
  from assms have s: "str_split1 32 line = [tp, dp]" and "\<exists>hm. strptime (decimal env) tp = Inr hm"
    by (auto simp: parse_line_def split: list.splits sum.splits)
  with str_split1_two [OF s] show ?thesis by simp
qed


lemma parse_lines_bad:
  "list_all2 (\<lambda>line p. parse_line env line = Inr p) pre pairs \<Longrightarrow>
   parse_line env bad = Inl e \<Longrightarrow>
   \<exists>w'. parse_lines env c (pre @ bad # post) acc w = (Inl bad, w') \<and>
        data_file w' = data_file w \<and> sent w' = sent w \<and>
        length (timers w') = length (timers w) + length pre"
proof (induction arbitrary: acc w rule: list_all2_induct)
  case Nil
  then show ?case by simp
next
  case (Cons line lines p pairs)
  obtain tp dp where p: "p = (tp, dp)" by (cases p)
  obtain hm where hm: "strptime (decimal env) tp = Inr hm"
    using Cons.hyps(1) parse_line_Inr unfolding p by blast
  let ?w1 = "schedule_task env c tp dp w"
  obtain w' where w': "parse_lines env c (lines @ bad # post) (acc @ [PyTuple tp dp]) ?w1 = (Inl bad, w')"
      "data_file w' = data_file ?w1" "sent w' = sent ?w1"
      "length (timers w') = length (timers ?w1) + length lines"
    using Cons.IH [OF Cons.prems, of "acc @ [PyTuple tp dp]" ?w1] by blast
  show ?case
    using w' Cons.hyps(1) schedule_task_frame [of env c tp dp w] schedule_task_timers [OF hm, of c dp w]
    by (simp add: p)
qed

lemma all_valid_pairs:
  "\<forall>x \<in> set xs. \<exists>y. P x y \<Longrightarrow> \<exists>ys. list_all2 P xs ys"
proof (induction xs)
  case Nil
  then show ?case by simp
next
  case (Cons x xs)
  then obtain y ys where "P x y" "list_all2 P xs ys" by auto
  then have "list_all2 P (x # xs) (y # ys)" by simp
  then show ?case by blast
qed


lemma parse_lines_frame:
  "data_file (snd (parse_lines env c lines acc w)) = data_file w"
proof (induction lines arbitrary: acc w)
  case Nil
  then show ?case by simp
next
  case (Cons line lines)
  show ?case
  proof (cases "parse_line env line")
    case (Inl e)
    then show ?thesis by simp
  next
    case (Inr p)
    obtain tp dp where p: "p = (tp, dp)" by (cases p)
    show ?thesis
      using Cons [of "acc @ [PyTuple tp dp]" "schedule_task env c tp dp w"]
        schedule_task_frame [of env c tp dp w]
      by (simp add: Inr p)
  qed
qed

lemma handle_message_file:
  assumes d: "load_data (data_file w) = Some d"
  shows "data_file (snd (handle_message env chat t w)) = data_file w \<or>
         (\<exists>r'. data_file (snd (handle_message env chat t w)) = Some (json_dump (AList.update chat r' d)) \<and>
               (case map_of d chat of
                  None \<Rightarrow> r' = new_record
                | Some r \<Rightarrow>
                    r' = r \<or>
                    (mode r = Some (py ''plan'') \<and>
                     r' = r\<lparr>diary := diary r @ [\<lparr>entry_type = PLAN_TYPE, entry_text = t\<rparr>],
                            mode := Some (py ''schedule'')\<rparr>) \<or>
                    (mode r = Some (py ''reflect'') \<and>
                     r' = r\<lparr>diary := diary r @ [\<lparr>entry_type = REFLECT_TYPE, entry_text = t\<rparr>],
                            mode := None\<rparr>) \<or>
                    (mode r = Some (py ''schedule'') \<and> (\<exists>ts. r' = r\<lparr>tasks := ts, mode := None\<rparr>))))"
proof (cases "map_of d chat")
  case None
  let ?sr = "send_long_message env chat (generate_message env (FREE_PROMPT_PRE @ t)) w"
  have fr: "data_file (snd ?sr) = data_file w" by (simp add: send_long_message_frame)
  show ?thesis
  proof (cases "fst ?sr")
    case (Inl e)
    then show ?thesis unfolding handle_new [OF d None] case_send using fr by simp
  next
    case (Inr u)
    have "data_file (snd (handle_message env chat t w)) =
            Some (json_dump (AList.update chat new_record d))"
      unfolding handle_new [OF d None] case_send using Inr by (simp add: save_data_def)
    then show ?thesis using None by (intro disjI2 exI [of _ new_record]) simp
  qed
next
  case (Some r)
  consider (plan) "mode r = Some (py ''plan'')" | (schedule) "mode r = Some (py ''schedule'')"
    | (reflect) "mode r = Some (py ''reflect'')"
    | (free) "mode r \<noteq> Some (py ''plan'')" "mode r \<noteq> Some (py ''schedule'')"
        "mode r \<noteq> Some (py ''reflect'')"
    by blast
  then show ?thesis
  proof cases
    case plan
    let ?sr = "send_long_message env chat
               (PLAN_REPLY_PRE @ generate_message env (PLAN_PROMPT_PRE @ t @ PLAN_PROMPT_POST)
                  @ PLAN_REPLY_POST) w"
    let ?r' = "r\<lparr>diary := diary r @ [\<lparr>entry_type = PLAN_TYPE, entry_text = t\<rparr>],
                 mode := Some (py ''schedule'')\<rparr>"
    have fr: "data_file (snd ?sr) = data_file w" by (simp add: send_long_message_frame)
    show ?thesis
    proof (cases "fst ?sr")
      case (Inl e)
      then show ?thesis unfolding handle_plan [OF d Some plan] case_send using fr by simp
    next
      case (Inr u)
      have "data_file (snd (handle_message env chat t w)) =
              Some (json_dump (AList.update chat ?r' d))"
        unfolding handle_plan [OF d Some plan] case_send using Inr by (simp add: save_data_def)
      then show ?thesis using Some plan by (intro disjI2 exI [of _ ?r']) simp
    qed
  next
    case reflect
    let ?sr = "send_long_message env chat
             (REFLECT_REPLY_PRE @ generate_message env (REFLECT_PROMPT_PRE @ t @ REFLECT_PROMPT_POST)) w"
    let ?r' = "r\<lparr>diary := diary r @ [\<lparr>entry_type = REFLECT_TYPE, entry_text = t\<rparr>],
                 mode := None\<rparr>"
    have fr: "data_file (snd ?sr) = data_file w" by (simp add: send_long_message_frame)
    show ?thesis
    proof (cases "fst ?sr")
      case (Inl e)
      then show ?thesis unfolding handle_reflect [OF d Some reflect] case_send using fr by simp
    next
      case (Inr u)
      have "data_file (snd (handle_message env chat t w)) =
              Some (json_dump (AList.update chat ?r' d))"
        unfolding handle_reflect [OF d Some reflect] case_send using Inr
        by (simp add: save_data_def)
      then show ?thesis using Some reflect by (intro disjI2 exI [of _ ?r']) simp
    qed
  next
    case free
    let ?sr = "send_long_message env chat (generate_message env (FREE_PROMPT_PRE @ t)) w"
    have fr: "data_file (snd ?sr) = data_file w" by (simp add: send_long_message_frame)
    have same: "AList.update chat r d = d" using Some by (rule update_triv)
    show ?thesis
    proof (cases "fst ?sr")
      case (Inl e)
      then show ?thesis unfolding handle_free [OF d Some free] case_send using fr by simp
    next
      case (Inr u)
      have "data_file (snd (handle_message env chat t w)) =
              Some (json_dump (AList.update chat r d))"
        unfolding handle_free [OF d Some free] case_send same using Inr
        by (simp add: save_data_def)
      then show ?thesis using Some by (intro disjI2 exI [of _ r]) simp
    qed
  next
    case schedule
    let ?pr = "parse_lines env chat (str_split 10 (strip t)) [] w"
    have fr: "data_file (snd ?pr) = data_file w" by (rule parse_lines_frame)
    show ?thesis
    proof (cases "fst ?pr")
      case (Inl line)
      then have pr: "?pr = (Inl line, snd ?pr)" by (metis prod.collapse)
      have "data_file (snd (handle_message env chat t w)) = data_file w"
        unfolding handle_schedule [OF d Some schedule]
        by (subst pr) (simp add: bot_send_message_def fr)
      then show ?thesis by simp
    next
      case (Inr ts)
      then have pr: "?pr = (Inr ts, snd ?pr)" by (metis prod.collapse)
      let ?r' = "r\<lparr>tasks := ts, mode := None\<rparr>"
      show ?thesis
      proof (cases "send_ok env chat SCHEDULE_OK")
        case True
        have "data_file (snd (handle_message env chat t w)) =
                Some (json_dump (AList.update chat ?r' d))"
          unfolding handle_schedule [OF d Some schedule]
          by (subst pr) (simp add: bot_send_message_def save_data_def True)
        then show ?thesis using Some schedule by (intro disjI2 exI [of _ ?r']) auto
      next
        case False
        have "data_file (snd (handle_message env chat t w)) = data_file w"
          unfolding handle_schedule [OF d Some schedule]
          by (subst pr) (simp add: bot_send_message_def False fr)
        then show ?thesis by simp
      qed
    qed
  qed
qed

lemma stored_of_file:
  assumes "load_data (data_file w) = Some d" and "data_file w' = Some (json_dump (AList.update chat r' d))"
  shows "stored w' c = (if c = chat then Some (as_loaded_record r') else stored w c)"
proof -
  have "data_file w' = data_file (save_data (AList.update chat r' d) w)"
    using assms(2) by (simp add: save_data_def)
  then have "stored w' c = stored (save_data (AList.update chat r' d) w) c"
    by (rule stored_frame)
  then show ?thesis using stored_after [OF assms(1) refl, of chat r' c] by simp
qed

lemma handle_message_stored:
  assumes "stored w c = Some r0"
  shows "\<exists>r1. stored (snd (handle_message env chat t w)) c = Some r1 \<and>
         (diary r1 = diary r0 \<or>
          (c = chat \<and> mode r0 = Some (py ''plan'') \<and>
           diary r1 = diary r0 @ [\<lparr>entry_type = PLAN_TYPE, entry_text = t\<rparr>]) \<or>
          (c = chat \<and> mode r0 = Some (py ''reflect'') \<and>
           diary r1 = diary r0 @ [\<lparr>entry_type = REFLECT_TYPE, entry_text = t\<rparr>]))"
proof -
  obtain d where d: "load_data (data_file w) = Some d" "map_of d c = Some r0"
    using storedD [OF assms] by blast
  let ?w' = "snd (handle_message env chat t w)"
  from handle_message_file [OF d(1), of env chat t]
  consider (same) "data_file ?w' = data_file w"
    | (saved) r' where "data_file ?w' = Some (json_dump (AList.update chat r' d))"
        "case map_of d chat of
           None \<Rightarrow> r' = new_record
         | Some r \<Rightarrow>
             r' = r \<or>
             (mode r = Some (py ''plan'') \<and>
              r' = r\<lparr>diary := diary r @ [\<lparr>entry_type = PLAN_TYPE, entry_text = t\<rparr>],
                     mode := Some (py ''schedule'')\<rparr>) \<or>
             (mode r = Some (py ''reflect'') \<and>
              r' = r\<lparr>diary := diary r @ [\<lparr>entry_type = REFLECT_TYPE, entry_text = t\<rparr>],
                     mode := None\<rparr>) \<or>
             (mode r = Some (py ''schedule'') \<and> (\<exists>ts. r' = r\<lparr>tasks := ts, mode := None\<rparr>))"
    by blast
  then show ?thesis
  proof cases
    case same
    have "stored ?w' c = Some r0" using stored_frame [OF same, of c] assms by simp
    then show ?thesis by simp
  next
    case saved
    have st: "stored ?w' c = (if c = chat then Some (as_loaded_record r') else Some r0)"
      using stored_of_file [OF d(1) saved(1), of c] assms by simp
    show ?thesis
    proof (cases "c = chat")
      case False
      then show ?thesis using st by simp
    next
      case True
      then have "map_of d chat = Some r0" using d(2) by simp
      then have four: "r' = r0 \<or>
             (mode r0 = Some (py ''plan'') \<and>
              r' = r0\<lparr>diary := diary r0 @ [\<lparr>entry_type = PLAN_TYPE, entry_text = t\<rparr>],
                     mode := Some (py ''schedule'')\<rparr>) \<or>
             (mode r0 = Some (py ''reflect'') \<and>
              r' = r0\<lparr>diary := diary r0 @ [\<lparr>entry_type = REFLECT_TYPE, entry_text = t\<rparr>],
                     mode := None\<rparr>) \<or>
             (mode r0 = Some (py ''schedule'') \<and> (\<exists>ts. r' = r0\<lparr>tasks := ts, mode := None\<rparr>))"
        using saved(2) by simp
      have dia: "diary (as_loaded_record r') = diary r'" by (simp add: as_loaded_record_def)
      have s1: "stored ?w' c = Some (as_loaded_record r')" using st True by simp
      from four have "diary r' = diary r0 \<or>
          (mode r0 = Some (py ''plan'') \<and>
           diary r' = diary r0 @ [\<lparr>entry_type = PLAN_TYPE, entry_text = t\<rparr>]) \<or>
          (mode r0 = Some (py ''reflect'') \<and>
           diary r' = diary r0 @ [\<lparr>entry_type = REFLECT_TYPE, entry_text = t\<rparr>])"
        by (elim disjE exE conjE) simp_all
      then show ?thesis using s1 dia True by (intro exI [of _ "as_loaded_record r'"]) simp
    qed
  qed
qed









lemma no_tuples_tasks:
  "\<forall>t \<in> set ts. \<exists>a b. t = PyList a b \<Longrightarrow> map as_loaded_task ts = ts"
  by (induction ts) auto

lemma no_tuples_as_loaded:
  "\<forall>(k, r) \<in> set x. \<forall>t \<in> set (tasks r). \<exists>a b. t = PyList a b \<Longrightarrow> as_loaded x = x"
proof (induction x)
  case Nil
  then show ?case by (simp add: as_loaded_def)
next
  case (Cons kr x)
  obtain k r where kr: "kr = (k, r)" by (cases kr)
  have "\<forall>t \<in> set (tasks r). \<exists>a b. t = PyList a b" using Cons.prems kr by simp
  then have "map as_loaded_task (tasks r) = tasks r"
    by (rule no_tuples_tasks)
  then have "as_loaded_record r = r" by (simp add: as_loaded_record_def)
  moreover have "as_loaded x = x" using Cons by simp
  ultimately show ?case using kr by (simp add: as_loaded_def)
qed

text \<open>
  C6, as the code has it. A text handled in \<^verbatim>\<open>plan\<close> mode appends the entry
  \<^verbatim>\<open>{"type": PLAN_TYPE, "text": text}\<close> to the chat's stored diary and one handled in
  \<^verbatim>\<open>reflect\<close> mode appends \<^verbatim>\<open>{"type": REFLECT_TYPE, "text": text}\<close>, with the text as
  received (when the reply is delivered). The diary is append-only: whatever the mode and
  the transport, every chat's stored diary after the handler is the diary before it followed
  by nothing or by one of these two entries.
\<close>

theorem diary_entries_appended:
  assumes "stored w chat_id = Some r"
  shows "(mode r = Some (py ''plan'') \<and> delivers env \<longrightarrow>
            (\<exists>r'. stored (snd (handle_message env chat_id text w)) chat_id = Some r' \<and>
                  diary r' = diary r @ [\<lparr>entry_type = PLAN_TYPE, entry_text = text\<rparr>])) \<and>
         (mode r = Some (py ''reflect'') \<and> delivers env \<longrightarrow>
            (\<exists>r'. stored (snd (handle_message env chat_id text w)) chat_id = Some r' \<and>
                  diary r' = diary r @ [\<lparr>entry_type = REFLECT_TYPE, entry_text = text\<rparr>])) \<and>
         (\<forall>c r0. stored w c = Some r0 \<longrightarrow>
            (\<exists>r1 new. stored (snd (handle_message env chat_id text w)) c = Some r1 \<and>
                      diary r1 = diary r0 @ new \<and>
                      (new = [] \<or> new = [\<lparr>entry_type = PLAN_TYPE, entry_text = text\<rparr>] \<or>
                       new = [\<lparr>entry_type = REFLECT_TYPE, entry_text = text\<rparr>])))"
proof (intro conjI impI allI)
  assume "mode r = Some (py ''plan'') \<and> delivers env"
  then obtain w' where "handle_message env chat_id text w = (Inr (), w')"
    "stored w' chat_id =
       Some (r\<lparr>diary := diary r @ [\<lparr>entry_type = PLAN_TYPE, entry_text = text\<rparr>],
               mode := Some (py ''schedule'')\<rparr>)"
    using handle_plan_delivers [OF assms, of env "text"] by blast
  then show "\<exists>r'. stored (snd (handle_message env chat_id text w)) chat_id = Some r' \<and>
                  diary r' = diary r @ [\<lparr>entry_type = PLAN_TYPE, entry_text = text\<rparr>]"
    by simp
next
  assume "mode r = Some (py ''reflect'') \<and> delivers env"
  then obtain w' where "handle_message env chat_id text w = (Inr (), w')"
    "stored w' chat_id =
       Some (r\<lparr>diary := diary r @ [\<lparr>entry_type = REFLECT_TYPE, entry_text = text\<rparr>],
               mode := None\<rparr>)"
    using handle_reflect_delivers [OF assms, of env "text"] by blast
  then show "\<exists>r'. stored (snd (handle_message env chat_id text w)) chat_id = Some r' \<and>
                  diary r' = diary r @ [\<lparr>entry_type = REFLECT_TYPE, entry_text = text\<rparr>]"
    by simp
next
  fix c r0 assume s: "stored w c = Some r0"
  from handle_message_stored [OF s, of env chat_id "text"]
  obtain r1 where r1: "stored (snd (handle_message env chat_id text w)) c = Some r1"
    and d: "diary r1 = diary r0 \<or>
          (c = chat_id \<and> mode r0 = Some (py ''plan'') \<and>
           diary r1 = diary r0 @ [\<lparr>entry_type = PLAN_TYPE, entry_text = text\<rparr>]) \<or>
          (c = chat_id \<and> mode r0 = Some (py ''reflect'') \<and>
           diary r1 = diary r0 @ [\<lparr>entry_type = REFLECT_TYPE, entry_text = text\<rparr>])"
    by blast
  from d have "\<exists>new. diary r1 = diary r0 @ new \<and>
                      (new = [] \<or> new = [\<lparr>entry_type = PLAN_TYPE, entry_text = text\<rparr>] \<or>
                       new = [\<lparr>entry_type = REFLECT_TYPE, entry_text = text\<rparr>])"
    by (elim disjE conjE) simp_all
  with r1 show "\<exists>r1 new. stored (snd (handle_message env chat_id text w)) c = Some r1 \<and>
                      diary r1 = diary r0 @ new \<and>
                      (new = [] \<or> new = [\<lparr>entry_type = PLAN_TYPE, entry_text = text\<rparr>] \<or>
                       new = [\<lparr>entry_type = REFLECT_TYPE, entry_text = text\<rparr>])"
    by blast
qed

text \<open>
  C7, as the code has it. Loading a saved store \<open>x\<close> returns \<open>x\<close> with every task tuple
  replaced by the list of its two components. It returns \<open>x\<close> itself when \<open>x\<close> holds no
  tuple, which is so for every store that was itself loaded; and saving what was loaded
  changes nothing more.
\<close>

theorem load_save_roundtrip:
  assumes "distinct (map fst x)"
  shows "load_data (data_file (save_data x w)) = Some (as_loaded x) \<and>
         ((\<forall>(k, r) \<in> set x. \<forall>t \<in> set (tasks r). \<exists>a b. t = PyList a b) \<longrightarrow>
            load_data (data_file (save_data x w)) = Some x) \<and>
         (\<forall>f. load_data f = Some x \<longrightarrow> load_data (data_file (save_data x w)) = Some x) \<and>
         load_data (data_file (save_data (as_loaded x) w)) = Some (as_loaded x)"
proof -
  have 1: "load_data (data_file (save_data x w)) = Some (as_loaded x)"
    using assms by (rule load_save)
  have 2: "(\<forall>(k, r) \<in> set x. \<forall>t \<in> set (tasks r). \<exists>a b. t = PyList a b) \<longrightarrow>
            load_data (data_file (save_data x w)) = Some x"
    using 1 no_tuples_as_loaded [of x] by auto
  have 3: "\<forall>f. load_data f = Some x \<longrightarrow> load_data (data_file (save_data x w)) = Some x"
    using 1 load_data_loaded [of _ x] by auto
  have "distinct (map fst (as_loaded x))"
    using assms by (simp add: as_loaded_def comp_def case_prod_beta)
  then have 4: "load_data (data_file (save_data (as_loaded x) w)) = Some (as_loaded x)"
    using load_save [of "as_loaded x" w] by (simp add: as_loaded_idem)
  show ?thesis using 1 2 3 4 by blast
qed

subsection \<open>Schedules\<close>




text \<open>
  C2. In \<^verbatim>\<open>schedule\<close> mode, when the lines before line \<open>k\<close> pass the check and line
  \<open>k\<close> does not, the handler sends one message, the error text around line \<open>k\<close>'s exact
  text, and returns: the file is not written, so the chat's stored record (mode
  \<^verbatim>\<open>schedule\<close>, old tasks) is as before, and only the \<open>k - 1\<close> lines before have had a
  reminder scheduled. When the transport refuses the error message the handler raises
  instead, with the same state.
\<close>

theorem schedule_malformed_line:
  assumes "stored w chat_id = Some r" and "mode r = Some (py ''schedule'')"
    and "str_split 10 (strip text) = pre @ bad # post"
    and "\<forall>line \<in> set pre. \<exists>p. parse_line env line = Inr p"
    and "parse_line env bad = Inl e"
  shows "data_file (snd (handle_message env chat_id text w)) = data_file w \<and>
         stored (snd (handle_message env chat_id text w)) chat_id = Some r \<and>
         length (timers (snd (handle_message env chat_id text w))) = length (timers w) + length pre \<and>
         (send_ok env chat_id (ERR_PREFIX @ bad @ ERR_SUFFIX) \<longrightarrow>
            fst (handle_message env chat_id text w) = Inr () \<and>
            sent (snd (handle_message env chat_id text w)) =
              sent w @ [(chat_id, ERR_PREFIX @ bad @ ERR_SUFFIX)]) \<and>
         (\<not> send_ok env chat_id (ERR_PREFIX @ bad @ ERR_SUFFIX) \<longrightarrow>
            fst (handle_message env chat_id text w) = Inl TelegramError \<and>
            sent (snd (handle_message env chat_id text w)) = sent w)"
proof -
  obtain d where d: "load_data (data_file w) = Some d" "map_of d chat_id = Some r"
    using storedD [OF assms(1)] by blast
  obtain pairs where pairs: "list_all2 (\<lambda>line p. parse_line env line = Inr p) pre pairs"
    using all_valid_pairs [OF assms(4)] by blast
  obtain w1 where w1: "parse_lines env chat_id (pre @ bad # post) [] w = (Inl bad, w1)"
      "data_file w1 = data_file w" "sent w1 = sent w"
      "length (timers w1) = length (timers w) + length pre"
    using parse_lines_bad [OF pairs assms(5), of chat_id post "[]" w] by auto
  have h: "handle_message env chat_id text w =
             (if send_ok env chat_id (ERR_PREFIX @ bad @ ERR_SUFFIX)
              then (Inr (), w1\<lparr>sent := sent w1 @ [(chat_id, ERR_PREFIX @ bad @ ERR_SUFFIX)]\<rparr>)
              else (Inl TelegramError, w1))"
    unfolding handle_schedule [OF d assms(2)] assms(3) w1(1)
    by (simp add: bot_send_message_def)
  have "stored w1 chat_id = Some r" using stored_frame [OF w1(2)] assms(1) by simp
  then show ?thesis unfolding h using w1(2-4) by (simp add: stored_def)
qed

theorem schedule_malformed_line_witness:
  "parse_line example_env (py ''8:00 Math'') = Inr (py ''8:00'', py ''Math'') \<and>
   parse_line example_env (py ''badline'') = Inl ValueError \<and>
   stored (snd (handle_message example_env (py ''42'') (py ''8:00 Math'' @ [10] @ py ''badline'')
                  (world0 (store42 (Some (py ''schedule'')))))) (py ''42'') =
     Some \<lparr>diary = [], mode = Some (py ''schedule''), tasks = []\<rparr> \<and>
   sent (snd (handle_message example_env (py ''42'') (py ''8:00 Math'' @ [10] @ py ''badline'')
                (world0 (store42 (Some (py ''schedule'')))))) =
     [(py ''42'', ERR_PREFIX @ py ''badline'' @ ERR_SUFFIX)] \<and>
   length (timers (snd (handle_message example_env (py ''42'') (py ''8:00 Math'' @ [10] @ py ''badline'')
                (world0 (store42 (Some (py ''schedule''))))))) = 1"
proof -
  let ?w = "world0 (store42 (Some (py ''schedule'')))"
  let ?r = "\<lparr>diary = [], mode = Some (py ''schedule''), tasks = []\<rparr>"
  let ?t = "py ''8:00 Math'' @ [10] @ py ''badline''"
  have s: "stored ?w (py ''42'') = Some ?r" by code_simp
  have m: "mode ?r = Some (py ''schedule'')" by simp
  have L: "str_split 10 (strip ?t) = [py ''8:00 Math''] @ py ''badline'' # []" by code_simp
  have p1: "parse_line example_env (py ''8:00 Math'') = Inr (py ''8:00'', py ''Math'')" by code_simp
  have p2: "parse_line example_env (py ''badline'') = Inl ValueError" by code_simp
  have v: "\<forall>line \<in> set [py ''8:00 Math'']. \<exists>p. parse_line example_env line = Inr p"
    using p1 by simp
  have k: "send_ok example_env (py ''42'') (ERR_PREFIX @ py ''badline'' @ ERR_SUFFIX)"
    by (simp add: example_env_def)
  have t0: "timers ?w = []" "sent ?w = []" by (simp_all add: world0_def)
  show ?thesis
    using schedule_malformed_line [OF s m L v p2] p1 p2 k unfolding t0 by simp
qed

subsection \<open>Examples\<close>


theorem free_chat_frame_witness:
  "stored (world0 (store42 None)) (py ''42'') = Some \<lparr>diary = [], mode = None, tasks = []\<rparr> \<and>
   stored (snd (handle_message example_env (py ''42'') (py ''hi'') (world0 (store42 None)))) (py ''42'')
     = Some \<lparr>diary = [], mode = None, tasks = []\<rparr> \<and>
   timers (snd (handle_message example_env (py ''42'') (py ''hi'') (world0 (store42 None)))) = [] \<and>
   fst (handle_message example_env (py ''42'') (py ''hi'') (world0 (store42 None))) = Inr ()"
proof -
  let ?r = "\<lparr>diary = [], mode = None, tasks = []\<rparr>"
  have s: "stored (world0 (store42 None)) (py ''42'') = Some ?r" by code_simp
  have m: "mode ?r \<noteq> Some (py ''plan'')" "mode ?r \<noteq> Some (py ''schedule'')"
    "mode ?r \<noteq> Some (py ''reflect'')" by simp_all
  have d: "delivers example_env" by (simp add: delivers_def example_env_def)
  have t: "timers (world0 (store42 None)) = []" by (simp add: world0_def)
  show ?thesis
    using s d t free_chat_frame [OF s m, of example_env "py ''hi''"] by simp
qed

theorem diary_entries_appended_witness:
  "stored (world0 (store42 (Some (py ''plan'')))) (py ''42'') =
     Some \<lparr>diary = [], mode = Some (py ''plan''), tasks = []\<rparr> \<and>
   (\<exists>r'. stored (snd (handle_message example_env (py ''42'') (py ''run'')
                        (world0 (store42 (Some (py ''plan'')))))) (py ''42'') = Some r' \<and>
         diary r' = [\<lparr>entry_type = PLAN_TYPE, entry_text = py ''run''\<rparr>]) \<and>
   stored (world0 (store42 (Some (py ''reflect'')))) (py ''42'') =
     Some \<lparr>diary = [], mode = Some (py ''reflect''), tasks = []\<rparr> \<and>
   (\<exists>r'. stored (snd (handle_message example_env (py ''42'') (py ''fine'')
                        (world0 (store42 (Some (py ''reflect'')))))) (py ''42'') = Some r' \<and>
         diary r' = [\<lparr>entry_type = REFLECT_TYPE, entry_text = py ''fine''\<rparr>])"
proof -
  let ?p = "\<lparr>diary = [], mode = Some (py ''plan''), tasks = []\<rparr>"
  let ?q = "\<lparr>diary = [], mode = Some (py ''reflect''), tasks = []\<rparr>"
  have s1: "stored (world0 (store42 (Some (py ''plan'')))) (py ''42'') = Some ?p" by code_simp
  have s2: "stored (world0 (store42 (Some (py ''reflect'')))) (py ''42'') = Some ?q" by code_simp
  have d: "delivers example_env" by (simp add: delivers_def example_env_def)
  show ?thesis
    using s1 s2 d diary_entries_appended [OF s1, of example_env "py ''run''"]
      diary_entries_appended [OF s2, of example_env "py ''fine''"]
    by simp
qed

text \<open>
  C6 as stated gives the entry the shape \<^verbatim>\<open>{kind, text}\<close> with kind \<^verbatim>\<open>"plan"\<close>. The
  key is \<^verbatim>\<open>"type"\<close> and the value in \<^verbatim>\<open>plan\<close> mode is the Russian word of line 115
  (code points 1087, 1083, 1072, 1085, 1099), not \<^verbatim>\<open>"plan"\<close>.
\<close>

theorem diary_type_is_not_plan:
  "map_option diary
     (stored (snd (handle_message example_env (py ''42'') (py ''run'')
                     (world0 (store42 (Some (py ''plan'')))))) (py ''42''))
     = Some [\<lparr>entry_type = PLAN_TYPE, entry_text = py ''run''\<rparr>] \<and>
   entry_type \<lparr>entry_type = PLAN_TYPE, entry_text = py ''run''\<rparr> \<noteq> py ''plan'' \<and>
   json_of_entry \<lparr>entry_type = PLAN_TYPE, entry_text = py ''run''\<rparr> =
     JObject [(py ''type'', JString [1087, 1083, 1072, 1085, 1099]), (py ''text'', JString (py ''run''))] \<and>
   py ''type'' \<noteq> py ''kind''"
  by code_simp

theorem load_save_roundtrip_witness:
  "distinct (map fst saved42) \<and>
   load_data (data_file (save_data saved42 (world0 []))) =
     Some [(py ''42'', \<lparr>diary = [], mode = None, tasks = [PyList (py ''8:00'') (py ''Math'')]\<rparr>)]"
proof -
  have d: "distinct (map fst saved42)" by (simp add: saved42_def)
  have a: "as_loaded saved42 =
      [(py ''42'', \<lparr>diary = [], mode = None, tasks = [PyList (py ''8:00'') (py ''Math'')]\<rparr>)]"
    by (simp add: as_loaded_def saved42_def as_loaded_record_def)
  show ?thesis using d load_save_roundtrip [OF d, of "world0 []"] unfolding a by simp
qed

text \<open>
  C7 as stated says loading returns exactly what was saved. After the schedule
  \<^verbatim>\<open>"8:00 Math"\<close> the handler saves a store whose task is the tuple
  \<^verbatim>\<open>("8:00", "Math")\<close>; loading gives the list \<^verbatim>\<open>["8:00", "Math"]\<close>, which Python does
  not hold equal to the tuple.
\<close>

theorem saved_tuples_load_as_lists:
  "fst (parse_lines example_env (py ''42'') [py ''8:00 Math''] []
          (world0 (store42 (Some (py ''schedule''))))) = Inr [PyTuple (py ''8:00'') (py ''Math'')] \<and>
   data_file (snd (handle_message example_env (py ''42'') (py ''8:00 Math'')
                     (world0 (store42 (Some (py ''schedule'')))))) =
     data_file (save_data saved42 (world0 [])) \<and>
   load_data (data_file (save_data saved42 (world0 []))) \<noteq> Some saved42"
  by code_simp


subsection \<open>Reminders, chunks and the generator\<close>




text \<open>
  C8. When the transport accepts every message, \<^verbatim>\<open>send_long_message\<close> returns after
  sending a sequence of chunks to the chat, each at most 4096 code points long, whose
  concatenation in order is the text; a text longer than 4096 gives at least two sends.
\<close>

theorem send_long_message_chunks:
  assumes "delivers env"
  shows "\<exists>chunks.
           send_long_message env chat_id text w =
             (Inr (), w\<lparr>sent := sent w @ map (Pair chat_id) chunks\<rparr>) \<and>
           concat chunks = text \<and>
           (\<forall>chunk \<in> set chunks. length chunk \<le> 4096) \<and>
           (4096 < length text \<longrightarrow> 2 \<le> length chunks)"
proof -
  let ?idx = "range_step (length text) MAX_LEN"
  let ?chunks = "map (\<lambda>i. slice text i (i + MAX_LEN)) ?idx"
  have M: "0 < MAX_LEN" "MAX_LEN = 4096" by (simp_all add: MAX_LEN_def)
  have "send_long_message env chat_id text w =
          (Inr (), w\<lparr>sent := sent w @ map (Pair chat_id) ?chunks\<rparr>)"
    using send_chunks_delivers [OF assms, of chat_id "text" "?idx" w]
    by (simp add: send_long_message_def comp_def)
  moreover have "concat ?chunks = text" using M(1) by (rule concat_chunks)
  moreover have "\<forall>chunk \<in> set ?chunks. length chunk \<le> 4096"
    using length_slice [of "text" _ MAX_LEN] by (auto simp: M(2))
  moreover have "4096 < length text \<longrightarrow> 2 \<le> length ?chunks"
    using range_step_many [of MAX_LEN "length text"] M by simp
  ultimately show ?thesis by blast
qed

theorem send_long_message_chunks_witness:
  "delivers example_env \<and>
   (\<exists>chunks.
      send_long_message example_env (py ''42'') (replicate 5000 97) (world0 []) =
        (Inr (), (world0 [])\<lparr>sent := sent (world0 []) @ map (Pair (py ''42'')) chunks\<rparr>) \<and>
      concat chunks = replicate 5000 97 \<and>
      (\<forall>chunk \<in> set chunks. length chunk \<le> 4096) \<and>
      2 \<le> length chunks)"
proof -
  have d: "delivers example_env" by (simp add: delivers_def example_env_def)
  show ?thesis
    using d send_long_message_chunks [OF d, of "py ''42''" "replicate 5000 97" "world0 []"]
    by simp
qed



end
